theory Spec2Isabelle
  imports Complex_Main "HOL-Library.AList"
begin

section \<open>JavaScript values and objects\<close>

text \<open>
  The Lambda functions pass JSON-like values around: strings, numbers, \<open>null\<close>,
  \<open>undefined\<close>, arrays and objects. The handlers never compute with a number, they
  only hand it on, so a number is a \<open>real\<close> here. An object is an association list:
  \<open>Object.keys\<close> lists the keys in insertion order (as JavaScript does for keys that
  are not array indices), reading a missing property gives \<open>undefined\<close>, and an
  assignment replaces the value of an existing property in place or appends a new one.
\<close>

datatype jsval =
    JUndefined
  | JNull
  | JBool bool
  | JNum real
  | JStr string
  | JArr "jsval list"
  | JObj "(string \<times> jsval) list"

type_synonym obj = "(string \<times> jsval) list"

text \<open>What \<open>if (v)\<close> and \<open>!v\<close> test.\<close>

fun truthy :: "jsval \<Rightarrow> bool" where
  "truthy JUndefined = False"
| "truthy JNull = False"
| "truthy (JBool b) = b"
| "truthy (JNum n) = (n \<noteq> 0)"
| "truthy (JStr s) = (s \<noteq> [])"
| "truthy (JArr xs) = True"
| "truthy (JObj kvs) = True"

definition obj_get :: "obj \<Rightarrow> string \<Rightarrow> jsval" where
  "obj_get ob k = (case map_of ob k of None \<Rightarrow> JUndefined | Some v \<Rightarrow> v)"

definition obj_set :: "obj \<Rightarrow> string \<Rightarrow> jsval \<Rightarrow> obj" where
  "obj_set ob k v = AList.update k v ob"

definition Object_keys :: "obj \<Rightarrow> string list" where
  "Object_keys ob = map fst ob"

text \<open>\<open>Array.prototype.includes\<close> on an array of strings: strict equality, element by element.\<close>

fun array_includes :: "string list \<Rightarrow> string \<Rightarrow> bool" where
  "array_includes [] g = False"
| "array_includes (x # xs) g = (if x = g then True else array_includes xs g)"

section \<open>The operation event\<close>

text \<open>
  \<open>AppSyncEvent\<close> of \<open>main.ts\<close>. The declared type makes \<open>identity\<close> mandatory, but
  the guard tests it for absence and the workshop text says it is null on a request that
  was not authenticated by the user pool, so it is optional here. \<open>claims\<close> maps a claim
  key to an array of strings.
\<close>

record info =
  fieldName :: string

record arguments =
  productId :: string
  category :: string
  product :: obj

record identity =
  username :: string
  claims :: "string \<rightharpoonup> string list"

record AppSyncEvent =
  info :: info
  arguments :: arguments
  identity :: "identity option"

section \<open>The authorization guard\<close>

text \<open>
  \<^verbatim>\<open>
  function checkForGroup(event:AppSyncEvent, groupName:string) {
    if (event.identity) {
      if (event.identity.claims['cognito:groups']) {
        if (event.identity.claims['cognito:groups'].includes(groupName)) {
          return true
        }
      }
    }
    return false
  }
  \<close>
  An array is truthy even when empty, so the second test is a test for presence.
\<close>

definition checkForGroup :: "AppSyncEvent \<Rightarrow> string \<Rightarrow> bool" where
  "checkForGroup event groupName =
     (case identity event of
        None \<Rightarrow> False
      | Some idn \<Rightarrow>
          (case claims idn ''cognito:groups'' of
             None \<Rightarrow> False
           | Some groups \<Rightarrow> (if array_includes groups groupName then True else False)))"

section \<open>The document client\<close>

text \<open>
  Every handler makes one call on \<open>AWS.DynamoDB.DocumentClient\<close> and awaits its promise.
  The client is not part of this repository: it is a parameter of the handlers, a function
  from a request and the state of the store to the settled promise (\<open>Inl\<close> a rejection,
  \<open>Inr\<close> the response) and the state after the call. Each request carries the parameter
  object the handler builds for it.
\<close>

record Params =
  TableName :: "string option"
  Key :: obj
  ExpressionAttributeValues :: obj
  ExpressionAttributeNames :: obj
  UpdateExpression :: string
  ReturnValues :: string

datatype request =
    Put "string option" obj
  | Get "string option" obj
  | Scan "string option"
  | Query "string option" string string obj obj
  | Update Params
  | Delete "string option" obj

text \<open>
  \<open>Put t item\<close>, \<open>Get t key\<close>, \<open>Scan t\<close>, \<open>Delete t key\<close> carry \<open>TableName\<close> and
  \<open>Item\<close> or \<open>Key\<close>; \<open>Query t i c ns vs\<close> carries \<open>TableName\<close>, \<open>IndexName\<close>,
  \<open>KeyConditionExpression\<close>, \<open>ExpressionAttributeNames\<close> and
  \<open>ExpressionAttributeValues\<close>.
\<close>

datatype store_error = ValidationException | ResourceNotFoundException | ServiceFailure

record response =
  Item :: "obj option"
  Items :: "obj list option"

type_synonym 's docClient = "request \<Rightarrow> 's \<Rightarrow> (store_error + response) \<times> 's"

text \<open>
  What a handler reads besides its argument: the client, the environment variable
  \<open>PRODUCT_TABLE\<close> (undefined when unset) and the octets that the random source
  yields when \<open>uuid()\<close> is called, as a function from the index to the octet.
\<close>

record 's env =
  docClient :: "'s docClient"
  PRODUCT_TABLE :: "string option"
  random_octets :: "nat \<Rightarrow> nat"

datatype error = Error string

type_synonym 's outcome = "(error + jsval) \<times> 's"

section \<open>The identifier generator\<close>

text \<open>
  Modelled from the spec: the identifier generator of section 4.3 (a random,
  collision-resistant token, UUID-v4), which \<open>createProduct\<close> imports as \<open>v4\<close> of the
  \<open>uuid\<close> package and which the repository does not contain. A version-4 identifier is
  made from 16 random octets: the high four bits of octet 6 are set to the version, 4, the
  high two bits of octet 8 to the variant, binary 10, and the 16 octets are written as 32
  lowercase hexadecimal digits with a hyphen after the 8th, 12th, 16th and 20th digit. Of
  the draw the octets at the indices 0 to 15 are read, each modulo 256.
\<close>

definition hex_digit :: "nat \<Rightarrow> char" where
  "hex_digit n = ''0123456789abcdef'' ! (n mod 16)"

definition byte_hex :: "nat \<Rightarrow> string" where
  "byte_hex b = [hex_digit (b div 16), hex_digit b]"

definition v4_octets :: "(nat \<Rightarrow> nat) \<Rightarrow> nat list" where
  "v4_octets rnds =
     (map (\<lambda>i. rnds i mod 256) [0..<16])
       [6 := rnds 6 mod 16 + 64, 8 := rnds 8 mod 64 + 128]"

definition uuid_v4 :: "(nat \<Rightarrow> nat) \<Rightarrow> string" where
  "uuid_v4 rnds =
     (let hex = concat (map byte_hex (v4_octets rnds)) in
      take 8 hex @ ''-'' @ take 4 (drop 8 hex) @ ''-'' @ take 4 (drop 12 hex) @ ''-'' @
      take 4 (drop 16 hex) @ ''-'' @ drop 20 hex)"

text \<open>\<open>uuid()\<close> in a handler: the generator on the octets drawn for this call.\<close>

definition uuid :: "'s env \<Rightarrow> string" where
  "uuid e = uuid_v4 (random_octets e)"

section \<open>The operation handlers\<close>

text \<open>
  Each handler is \<open>try { await docClient.op(params).promise(); return v } catch (err)
  { console.log(..); return null }\<close>. The log line is not modelled. A handler's outcome
  is the settled promise of the async function and the state of the store.
\<close>

definition getProductById :: "'s env \<Rightarrow> string \<Rightarrow> 's \<Rightarrow> 's outcome" where
  "getProductById e pid s =
     (let params = Get (PRODUCT_TABLE e) [(''id'', JStr pid)] in
      case docClient e params s of
        (Inr r, s') \<Rightarrow> (Inr (case Item r of None \<Rightarrow> JUndefined | Some it \<Rightarrow> JObj it), s')
      | (Inl err, s') \<Rightarrow> (Inr JUndefined, s'))"

definition listProducts :: "'s env \<Rightarrow> 's \<Rightarrow> 's outcome" where
  "listProducts e s =
     (let params = Scan (PRODUCT_TABLE e) in
      case docClient e params s of
        (Inr data, s') \<Rightarrow>
          (Inr (case Items data of None \<Rightarrow> JUndefined | Some its \<Rightarrow> JArr (map JObj its)), s')
      | (Inl err, s') \<Rightarrow> (Inr JNull, s'))"

definition productsByCategory :: "'s env \<Rightarrow> string \<Rightarrow> 's \<Rightarrow> 's outcome" where
  "productsByCategory e cat s =
     (let params = Query (PRODUCT_TABLE e) ''productsByCategory'' ''#fieldName = :category''
                     [(''#fieldName'', JStr ''category'')] [('':category'', JStr cat)] in
      case docClient e params s of
        (Inr data, s') \<Rightarrow>
          (Inr (case Items data of None \<Rightarrow> JUndefined | Some its \<Rightarrow> JArr (map JObj its)), s')
      | (Inl err, s') \<Rightarrow> (Inr JNull, s'))"

text \<open>
  \<open>createProduct\<close> assigns \<open>product.id = uuid()\<close> when \<open>!product.id\<close>, that is when
  the property is missing, null or the empty string, and puts the object as the item.
\<close>

definition createProduct :: "'s env \<Rightarrow> obj \<Rightarrow> 's \<Rightarrow> 's outcome" where
  "createProduct e pr s =
     (let pr' = (if \<not> truthy (obj_get pr ''id'')
                   then obj_set pr ''id'' (JStr (uuid e)) else pr);
          params = Put (PRODUCT_TABLE e) pr' in
      case docClient e params s of
        (Inr r, s') \<Rightarrow> (Inr (JObj pr'), s')
      | (Inl err, s') \<Rightarrow> (Inr JNull, s'))"

definition deleteProduct :: "'s env \<Rightarrow> string \<Rightarrow> 's \<Rightarrow> 's outcome" where
  "deleteProduct e pid s =
     (let params = Delete (PRODUCT_TABLE e) [(''id'', JStr pid)] in
      case docClient e params s of
        (Inr r, s') \<Rightarrow> (Inr (JStr pid), s')
      | (Inl err, s') \<Rightarrow> (Inr JNull, s'))"

text \<open>
  \<open>updateProduct\<close> builds the update expression in a loop over \<open>Object.keys(product)\<close>:
  \<^verbatim>\<open>
  let prefix = "set "
  for (let i=0; i<attributes.length; i++) {
    let attribute = attributes[i]
    if (attribute !== "id") {
      params["UpdateExpression"] += prefix + "#" + attribute + " = :" + attribute
      params["ExpressionAttributeValues"][":" + attribute] = product[attribute]
      params["ExpressionAttributeNames"]["#" + attribute] = attribute
      prefix = ", "
    }
  }
  \<close>
  The loop state is the parameter object and the prefix.
\<close>

fun updateProduct_loop :: "obj \<Rightarrow> string list \<Rightarrow> Params \<times> string \<Rightarrow> Params \<times> string" where
  "updateProduct_loop pr [] (params, prefix) = (params, prefix)"
| "updateProduct_loop pr (attribute # rest) (params, prefix) =
     (if attribute \<noteq> ''id'' then
        updateProduct_loop pr rest
          (params\<lparr>UpdateExpression :=
                     UpdateExpression params @ prefix @ ''#'' @ attribute @ '' = :'' @ attribute,
                   ExpressionAttributeValues :=
                     obj_set (ExpressionAttributeValues params) ('':'' @ attribute)
                       (obj_get pr attribute),
                   ExpressionAttributeNames :=
                     obj_set (ExpressionAttributeNames params) (''#'' @ attribute)
                       (JStr attribute)\<rparr>,
           '', '')
      else updateProduct_loop pr rest (params, prefix))"

definition updateProduct_params :: "'s env \<Rightarrow> obj \<Rightarrow> Params" where
  "updateProduct_params e pr =
     fst (updateProduct_loop pr (Object_keys pr)
            (\<lparr>TableName = PRODUCT_TABLE e,
              Key = [(''id'', obj_get pr ''id'')],
              ExpressionAttributeValues = [],
              ExpressionAttributeNames = [],
              UpdateExpression = '''',
              ReturnValues = ''UPDATED_NEW''\<rparr>, ''set ''))"

definition updateProduct :: "'s env \<Rightarrow> obj \<Rightarrow> 's \<Rightarrow> 's outcome" where
  "updateProduct e pr s =
     (case docClient e (Update (updateProduct_params e pr)) s of
        (Inr r, s') \<Rightarrow> (Inr (JObj pr), s')
      | (Inl err, s') \<Rightarrow> (Inr JNull, s'))"

section \<open>The dispatcher\<close>

text \<open>
  \<open>exports.handler\<close> of \<open>main.ts\<close>: a \<open>switch\<close> on \<open>event.info.fieldName\<close>, with
  \<open>throw new Error('unauthorized')\<close> before each of the three mutations when
  \<open>checkForGroup(event, "Admin")\<close> is false, and \<open>return null\<close> in the default case.
  The sources hold a second copy of the dispatcher without the three guard lines; the one
  modelled here is the guarded one, which the workshop text builds.
\<close>

definition handler :: "'s env \<Rightarrow> AppSyncEvent \<Rightarrow> 's \<Rightarrow> 's outcome" where
  "handler e event s =
     (let f = fieldName (info event) in
      if f = ''getProductById'' then getProductById e (productId (arguments event)) s
      else if f = ''createProduct'' then
        (if \<not> checkForGroup event ''Admin'' then (Inl (Error ''unauthorized''), s)
         else createProduct e (product (arguments event)) s)
      else if f = ''listProducts'' then listProducts e s
      else if f = ''deleteProduct'' then
        (if \<not> checkForGroup event ''Admin'' then (Inl (Error ''unauthorized''), s)
         else deleteProduct e (productId (arguments event)) s)
      else if f = ''updateProduct'' then
        (if \<not> checkForGroup event ''Admin'' then (Inl (Error ''unauthorized''), s)
         else updateProduct e (product (arguments event)) s)
      else if f = ''productsByCategory'' then
        productsByCategory e (category (arguments event)) s
      else (Inr JNull, s))"

section \<open>The table behind the document client\<close>

text \<open>
  Modelled from the spec: the Entity Store Adapter of sections 4.3, 4.4 and 6, which the
  repository does not contain (it is the DynamoDB table that the stack declares, with the
  string partition key \<open>id\<close> and the index \<open>productsByCategory\<close> on \<open>category\<close>,
  reached through the AWS document client). The table holds one item per key: \<open>put\<close>
  writes the item under its \<open>id\<close> and replaces what was there, \<open>get\<close> answers with the
  item or with none, \<open>scan\<close> answers with every item, \<open>query\<close> with the items of one
  category, \<open>delete\<close> removes the item under the key and accepts a key that is not there,
  \<open>update\<close> sets attributes of the item under the key and creates the item when there
  is none.

  The spec speaks of \<open>update(id, patch)\<close>; the handler sends the patch as an update
  expression with placeholders, so the model reads the expression by the service's grammar
  for the one form the handler writes: the keyword \<open>set\<close>, then actions
  \<open>#name = :value\<close> separated by a comma and a space, a placeholder being its sign and
  one or more letters, digits or underscores. A request whose expression is not of this
  form (the empty expression is not), whose placeholder is not in the map sent with it,
  whose key is not the string attribute \<open>id\<close>, or that sets the key attribute, is
  rejected with a validation error and changes nothing. Not modelled are the service's
  outages, throttling and size limits, and its checks on attribute values (an empty
  string as a key, a \<open>category\<close> that is not a string): the model accepts every
  request that is well formed in the sense above.
\<close>

type_synonym table = "(string \<times> obj) list"

definition name_char :: "char \<Rightarrow> bool" where
  "name_char c =
     (let n = (of_char c :: nat) in
      (48 \<le> n \<and> n \<le> 57) \<or> (65 \<le> n \<and> n \<le> 90) \<or> (97 \<le> n \<and> n \<le> 122) \<or> n = 95)"

fun strip_prefix :: "string \<Rightarrow> string \<Rightarrow> string option" where
  "strip_prefix [] s = Some s"
| "strip_prefix (p # ps) [] = None"
| "strip_prefix (p # ps) (c # cs) = (if p = c then strip_prefix ps cs else None)"

text \<open>A placeholder: the sign, then the longest run of name characters, which is not empty.\<close>

definition placeholder :: "char \<Rightarrow> string \<Rightarrow> (string \<times> string) option" where
  "placeholder sign s =
     (case s of
        [] \<Rightarrow> None
      | c # cs \<Rightarrow>
          if c = sign \<and> takeWhile name_char cs \<noteq> []
          then Some (c # takeWhile name_char cs, dropWhile name_char cs)
          else None)"

definition set_action :: "string \<Rightarrow> ((string \<times> string) \<times> string) option" where
  "set_action s =
     (case placeholder (CHR ''#'') s of
        None \<Rightarrow> None
      | Some (n, r1) \<Rightarrow>
          (case strip_prefix '' = '' r1 of
             None \<Rightarrow> None
           | Some r2 \<Rightarrow>
               (case placeholder (CHR '':'') r2 of
                  None \<Rightarrow> None
                | Some (v, r3) \<Rightarrow> Some ((n, v), r3))))"

lemma strip_prefix_length: "strip_prefix p s = Some r \<Longrightarrow> length r \<le> length s"
  by (induction p s rule: strip_prefix.induct) (auto split: if_splits)

lemma placeholder_length: "placeholder c s = Some (n, r) \<Longrightarrow> length r < length s"
  by (auto simp: placeholder_def length_dropWhile_le less_Suc_eq_le split: list.splits if_splits)

lemma set_action_length: "set_action s = Some (a, r) \<Longrightarrow> length r < length s"
  by (auto simp: set_action_def split: option.splits prod.splits
      dest!: placeholder_length strip_prefix_length)

function set_actions :: "string \<Rightarrow> (string \<times> string) list option" where
  "set_actions s =
     (case set_action s of
        None \<Rightarrow> None
      | Some (a, r) \<Rightarrow>
          if r = [] then Some [a]
          else (case strip_prefix '', '' r of
                  None \<Rightarrow> None
                | Some r' \<Rightarrow> map_option (Cons a) (set_actions r')))"
  by pat_completeness auto
termination
proof (relation "measure length")
  show "wf (measure length)" by simp
next
  fix s :: string and x2 a r r'
  assume "set_action s = Some x2" "(a, r) = x2" "strip_prefix '', '' r = Some r'"
  then have "length r < length s" "length r' \<le> length r"
    using set_action_length [of s a r] strip_prefix_length [of "'', ''" r r'] by auto
  then show "(r', s) \<in> measure length" by simp
qed

definition parse_update_expression :: "string \<Rightarrow> (string \<times> string) list option" where
  "parse_update_expression ex =
     (case strip_prefix ''set '' ex of None \<Rightarrow> None | Some r \<Rightarrow> set_actions r)"

text \<open>
  An action names an attribute through \<open>ExpressionAttributeNames\<close> and a value through
  \<open>ExpressionAttributeValues\<close>.
\<close>

definition resolve_action :: "obj \<Rightarrow> obj \<Rightarrow> string \<times> string \<Rightarrow> (string \<times> jsval) option" where
  "resolve_action names vals a =
     (case map_of names (fst a) of
        Some (JStr attr) \<Rightarrow>
          (case map_of vals (snd a) of None \<Rightarrow> None | Some v \<Rightarrow> Some (attr, v))
      | _ \<Rightarrow> None)"

definition key_of :: "obj \<Rightarrow> string option" where
  "key_of k = (case k of [(a, JStr v)] \<Rightarrow> (if a = ''id'' then Some v else None) | _ \<Rightarrow> None)"

definition table_error :: "string \<Rightarrow> string option \<Rightarrow> store_error option" where
  "table_error tn t =
     (case t of
        None \<Rightarrow> Some ValidationException
      | Some n \<Rightarrow> if n = tn then None else Some ResourceNotFoundException)"

definition no_data :: response where
  "no_data = \<lparr>Item = None, Items = None\<rparr>"

definition apply_actions :: "(string \<times> jsval) list \<Rightarrow> obj \<Rightarrow> obj" where
  "apply_actions asg it = fold (\<lambda>a. AList.update (fst a) (snd a)) asg it"

definition table_put :: "obj \<Rightarrow> table \<Rightarrow> (store_error + response) \<times> table" where
  "table_put it tbl =
     (case map_of it ''id'' of
        Some (JStr k) \<Rightarrow> (Inr no_data, AList.update k it tbl)
      | _ \<Rightarrow> (Inl ValidationException, tbl))"

definition table_get :: "obj \<Rightarrow> table \<Rightarrow> (store_error + response) \<times> table" where
  "table_get key tbl =
     (case key_of key of
        None \<Rightarrow> (Inl ValidationException, tbl)
      | Some k \<Rightarrow> (Inr \<lparr>Item = map_of tbl k, Items = None\<rparr>, tbl))"

definition table_delete :: "obj \<Rightarrow> table \<Rightarrow> (store_error + response) \<times> table" where
  "table_delete key tbl =
     (case key_of key of
        None \<Rightarrow> (Inl ValidationException, tbl)
      | Some k \<Rightarrow> (Inr no_data, AList.delete k tbl))"

definition table_query ::
  "string \<Rightarrow> string \<Rightarrow> obj \<Rightarrow> obj \<Rightarrow> table \<Rightarrow> (store_error + response) \<times> table" where
  "table_query idx cond names vals tbl =
     (if idx \<noteq> ''productsByCategory'' then (Inl ValidationException, tbl)
      else
        (case set_action cond of
           Some (a, []) \<Rightarrow>
             (case resolve_action names vals a of
                Some (attr, v) \<Rightarrow>
                  if attr = ''category''
                  then (Inr \<lparr>Item = None,
                             Items = Some (filter (\<lambda>it. map_of it ''category'' = Some v)
                                            (map snd tbl))\<rparr>, tbl)
                  else (Inl ValidationException, tbl)
              | None \<Rightarrow> (Inl ValidationException, tbl))
         | _ \<Rightarrow> (Inl ValidationException, tbl)))"

definition table_update :: "Params \<Rightarrow> table \<Rightarrow> (store_error + response) \<times> table" where
  "table_update p tbl =
     (case key_of (Key p) of
        None \<Rightarrow> (Inl ValidationException, tbl)
      | Some k \<Rightarrow>
          (case parse_update_expression (UpdateExpression p) of
             None \<Rightarrow> (Inl ValidationException, tbl)
           | Some acts \<Rightarrow>
               (case those (map (resolve_action (ExpressionAttributeNames p)
                                   (ExpressionAttributeValues p)) acts) of
                  None \<Rightarrow> (Inl ValidationException, tbl)
                | Some asg \<Rightarrow>
                    if ''id'' \<in> set (map fst asg) then (Inl ValidationException, tbl)
                    else
                      (Inr no_data,
                       AList.update k
                         (apply_actions asg
                            (case map_of tbl k of None \<Rightarrow> Key p | Some it \<Rightarrow> it)) tbl))))"

text \<open>
  Modelled from the spec: the six primitives of the Entity Store Adapter (section 4.4) as
  one client over the table \<open>tn\<close>, each by the definition above. A request that names no
  table or another table is rejected.
\<close>

definition dynamo_client :: "string \<Rightarrow> table docClient" where
  "dynamo_client tn req tbl =
     (let t = (case req of Put t it \<Rightarrow> t | Get t k \<Rightarrow> t | Scan t \<Rightarrow> t
                 | Query t i c ns vs \<Rightarrow> t | Update p \<Rightarrow> TableName p | Delete t k \<Rightarrow> t) in
      case table_error tn t of
        Some err \<Rightarrow> (Inl err, tbl)
      | None \<Rightarrow>
          (case req of
             Put t it \<Rightarrow> table_put it tbl
           | Get t k \<Rightarrow> table_get k tbl
           | Scan t \<Rightarrow> (Inr \<lparr>Item = None, Items = Some (map snd tbl)\<rparr>, tbl)
           | Query t i c ns vs \<Rightarrow> table_query i c ns vs tbl
           | Update p \<Rightarrow> table_update p tbl
           | Delete t k \<Rightarrow> table_delete k tbl))"

definition dynamo_env :: "string \<Rightarrow> (nat \<Rightarrow> nat) \<Rightarrow> table env" where
  "dynamo_env tn u =
     \<lparr>docClient = dynamo_client tn, PRODUCT_TABLE = Some tn, random_octets = u\<rparr>"

declare set_actions.simps [simp del]

section \<open>Notions used in the statements\<close>

text \<open>
  The three operations that write, and what it is for the caller of an event to carry the
  group \<open>Admin\<close>, said without the guard.
\<close>

definition is_mutation :: "string \<Rightarrow> bool" where
  "is_mutation f = (f = ''createProduct'' \<or> f = ''updateProduct'' \<or> f = ''deleteProduct'')"

definition admin_claim :: "AppSyncEvent \<Rightarrow> bool" where
  "admin_claim ev =
     (\<exists>i gs. identity ev = Some i \<and> claims i ''cognito:groups'' = Some gs \<and> ''Admin'' \<in> set gs)"

text \<open>
  An attribute name that can stand behind \<open>#\<close> and \<open>:\<close> in a placeholder, the action
  the loop writes for an attribute, and the attributes of an input other than \<open>id\<close>.
\<close>

definition valid_name :: "string \<Rightarrow> bool" where
  "valid_name a = (a \<noteq> [] \<and> list_all name_char a)"

definition clause :: "string \<Rightarrow> string" where
  "clause a = ''#'' @ a @ '' = :'' @ a"

definition patch_keys :: "obj \<Rightarrow> string list" where
  "patch_keys pr = filter (\<lambda>a. a \<noteq> ''id'') (Object_keys pr)"

text \<open>The expression the loop writes for the attributes that are not \<open>id\<close>.\<close>

definition render :: "string \<Rightarrow> string list \<Rightarrow> string" where
  "render prefix ks =
     (case ks of [] \<Rightarrow> [] | a # rest \<Rightarrow>
        prefix @ clause a @ concat (map (\<lambda>b. '', '' @ clause b) rest))"

text \<open>One round of the loop for an attribute that is not \<open>id\<close>.\<close>

definition add_clause :: "obj \<Rightarrow> string \<Rightarrow> Params \<Rightarrow> string \<Rightarrow> Params" where
  "add_clause pr b p prefix =
     p\<lparr>UpdateExpression := UpdateExpression p @ prefix @ ''#'' @ b @ '' = :'' @ b,
       ExpressionAttributeValues :=
         obj_set (ExpressionAttributeValues p) ('':'' @ b) (obj_get pr b),
       ExpressionAttributeNames :=
         obj_set (ExpressionAttributeNames p) (''#'' @ b) (JStr b)\<rparr>"

section \<open>Sample clients and data\<close>

text \<open>
  A draw of the random source, of which the generator makes
  \<open>1b4e28ba-2fa1-41d2-883f-0016d3cca427\<close>.
\<close>

definition sample_octets :: "nat \<Rightarrow> nat" where
  "sample_octets i =
     [27, 78, 40, 186, 47, 161, 65, 210, 136, 63, 0, 22, 211, 204, 164, 39] ! i"

text \<open>
  A client that accepts every request, answers with an empty response and records the
  request: a test double, used to observe which calls a dispatch makes.
\<close>

definition recording_client :: "(request list) docClient" where
  "recording_client req calls = (Inr \<lparr>Item = None, Items = None\<rparr>, calls @ [req])"

definition recording_env :: "(request list) env" where
  "recording_env = \<lparr>docClient = recording_client, PRODUCT_TABLE = Some ''ProductTable'',
                     random_octets = sample_octets\<rparr>"

definition mk_event :: "string \<Rightarrow> arguments \<Rightarrow> identity option \<Rightarrow> AppSyncEvent" where
  "mk_event f args idn = \<lparr>info = \<lparr>fieldName = f\<rparr>, arguments = args, identity = idn\<rparr>"

definition no_arguments :: arguments where
  "no_arguments = \<lparr>productId = [], category = [], product = []\<rparr>"

text \<open>A client whose every call is rejected, and a table with the one product of the spec's example.\<close>

definition failing_client :: "unit docClient" where
  "failing_client req s = (Inl ServiceFailure, s)"

definition failing_env :: "unit env" where
  "failing_env = \<lparr>docClient = failing_client, PRODUCT_TABLE = Some ''ProductTable'',
                   random_octets = sample_octets\<rparr>"

definition shop_table :: table where
  "shop_table = [(''1'', [(''id'', JStr ''1''), (''name'', JStr ''A''), (''price'', JNum 10),
                          (''category'', JStr ''x'')])]"

definition shop_env :: "table env" where
  "shop_env = dynamo_env ''ProductTable'' sample_octets"

definition admin :: identity where
  "admin = \<lparr>username = ''ann'', claims = [''cognito:groups'' \<mapsto> [''Admin'']]\<rparr>"

section \<open>Properties of the guard and the dispatcher\<close>

lemma array_includes_set: "array_includes xs g = (g \<in> set xs)"
  by (induction xs) auto

lemma checkForGroup_iff:
  "checkForGroup ev g =
     (\<exists>i gs. identity ev = Some i \<and> claims i ''cognito:groups'' = Some gs \<and> g \<in> set gs)"
  by (auto simp: checkForGroup_def array_includes_set split: option.splits)

text \<open>
  C2. \<open>checkForGroup\<close> is false when the event has no identity, false when the identity
  has no \<open>cognito:groups\<close> claim, and otherwise true exactly when the group name is an
  element of that claim's array; elements are compared as strings, so \<open>admin\<close> is not
  \<open>Admin\<close>. Being a HOL function of the event and the name alone, it reads and changes
  nothing else.
\<close>

theorem checkForGroup_membership:
  "(identity ev = None \<longrightarrow> \<not> checkForGroup ev g) \<and>
   (\<forall>i. identity ev = Some i \<longrightarrow> claims i ''cognito:groups'' = None \<longrightarrow>
        \<not> checkForGroup ev g) \<and>
   (\<forall>i gs. identity ev = Some i \<longrightarrow> claims i ''cognito:groups'' = Some gs \<longrightarrow>
        checkForGroup ev g = (g \<in> set gs))"
  by (simp add: checkForGroup_iff)

theorem checkForGroup_membership_witness:
  "\<not> checkForGroup (mk_event ''createProduct'' no_arguments None) ''Admin'' \<and>
   \<not> checkForGroup (mk_event ''createProduct'' no_arguments
        (Some \<lparr>username = ''ann'', claims = Map.empty\<rparr>)) ''Admin'' \<and>
   checkForGroup (mk_event ''createProduct'' no_arguments
        (Some \<lparr>username = ''ann'',
               claims = [''cognito:groups'' \<mapsto> [''Editors'', ''Admin'']]\<rparr>)) ''Admin'' \<and>
   \<not> checkForGroup (mk_event ''createProduct'' no_arguments
        (Some \<lparr>username = ''ann'',
               claims = [''cognito:groups'' \<mapsto> [''Editors'', ''Admin'']]\<rparr>)) ''admin''"
  using checkForGroup_membership [of "mk_event ''createProduct'' no_arguments None" "''Admin''"]
    checkForGroup_membership [of "mk_event ''createProduct'' no_arguments
        (Some \<lparr>username = ''ann'', claims = Map.empty\<rparr>)" "''Admin''"]
    checkForGroup_membership [of "mk_event ''createProduct'' no_arguments
        (Some \<lparr>username = ''ann'',
               claims = [''cognito:groups'' \<mapsto> [''Editors'', ''Admin'']]\<rparr>)" "''Admin''"]
    checkForGroup_membership [of "mk_event ''createProduct'' no_arguments
        (Some \<lparr>username = ''ann'',
               claims = [''cognito:groups'' \<mapsto> [''Editors'', ''Admin'']]\<rparr>)" "''admin''"]
  by (simp add: mk_event_def)

lemma handler_unauthorized:
  "is_mutation (fieldName (info ev)) \<Longrightarrow> \<not> checkForGroup ev ''Admin'' \<Longrightarrow>
   handler e ev s = (Inl (Error ''unauthorized''), s)"
  by (auto simp: handler_def is_mutation_def)

lemma handler_reads:
  "fieldName (info ev) = ''getProductById'' \<Longrightarrow>
     handler e ev s = getProductById e (productId (arguments ev)) s"
  "fieldName (info ev) = ''listProducts'' \<Longrightarrow> handler e ev s = listProducts e s"
  "fieldName (info ev) = ''productsByCategory'' \<Longrightarrow>
     handler e ev s = productsByCategory e (category (arguments ev)) s"
  by (simp_all add: handler_def)

text \<open>
  C1. A dispatch of \<open>createProduct\<close>, \<open>updateProduct\<close> or \<open>deleteProduct\<close> for an event
  without \<open>Admin\<close> among its \<open>cognito:groups\<close> (no identity included) throws
  \<open>Error('unauthorized')\<close> and leaves the store as it was, whatever the client is: the
  handler is not run and no request is made. A dispatch of one of the three reads is the
  read handler's outcome on the event's argument, and stays the same when the identity is
  replaced by any other or removed.
\<close>

theorem handler_authz_gate:
  "(is_mutation (fieldName (info ev)) \<and> \<not> admin_claim ev \<longrightarrow>
      handler e ev s = (Inl (Error ''unauthorized''), s)) \<and>
   (fieldName (info ev) = ''getProductById'' \<longrightarrow>
      handler e (ev\<lparr>identity := idn\<rparr>) s = getProductById e (productId (arguments ev)) s) \<and>
   (fieldName (info ev) = ''listProducts'' \<longrightarrow>
      handler e (ev\<lparr>identity := idn\<rparr>) s = listProducts e s) \<and>
   (fieldName (info ev) = ''productsByCategory'' \<longrightarrow>
      handler e (ev\<lparr>identity := idn\<rparr>) s = productsByCategory e (category (arguments ev)) s)"
proof -
  have "handler e ev s = (Inl (Error ''unauthorized''), s)"
    if "is_mutation (fieldName (info ev))" "\<not> admin_claim ev"
    using that handler_unauthorized [of ev e s]
    by (simp add: admin_claim_def checkForGroup_iff)
  then show ?thesis
    by (simp add: handler_reads)
qed

text \<open>
  Against the recording client: the mutations of an anonymous caller and of a caller whose
  only group is \<open>Editors\<close> throw and the record of calls stays empty, while the three
  reads of an anonymous caller each make their one call.
\<close>

theorem handler_authz_gate_witness:
  "handler recording_env (mk_event ''createProduct'' no_arguments None) []
     = (Inl (Error ''unauthorized''), []) \<and>
   handler recording_env (mk_event ''updateProduct'' no_arguments None) []
     = (Inl (Error ''unauthorized''), []) \<and>
   handler recording_env (mk_event ''deleteProduct'' no_arguments
       (Some \<lparr>username = ''bob'', claims = [''cognito:groups'' \<mapsto> [''Editors'']]\<rparr>)) []
     = (Inl (Error ''unauthorized''), []) \<and>
   handler recording_env (mk_event ''getProductById'' no_arguments None) []
     = (Inr JUndefined, [Get (Some ''ProductTable'') [(''id'', JStr [])]]) \<and>
   handler recording_env (mk_event ''listProducts'' no_arguments None) []
     = (Inr JUndefined, [Scan (Some ''ProductTable'')]) \<and>
   snd (handler recording_env (mk_event ''productsByCategory'' no_arguments None) [])
     = [Query (Some ''ProductTable'') ''productsByCategory'' ''#fieldName = :category''
          [(''#fieldName'', JStr ''category'')] [('':category'', JStr [])]]"
  using
    handler_authz_gate [of "mk_event ''createProduct'' no_arguments None" recording_env "[]" None]
    handler_authz_gate [of "mk_event ''updateProduct'' no_arguments None" recording_env "[]" None]
    handler_authz_gate [of "mk_event ''deleteProduct'' no_arguments
       (Some \<lparr>username = ''bob'', claims = [''cognito:groups'' \<mapsto> [''Editors'']]\<rparr>)"
       recording_env "[]" None]
    handler_authz_gate [of "mk_event ''getProductById'' no_arguments None" recording_env "[]" None]
    handler_authz_gate [of "mk_event ''listProducts'' no_arguments None" recording_env "[]" None]
    handler_authz_gate [of "mk_event ''productsByCategory'' no_arguments None"
       recording_env "[]" None]
  by (simp add: mk_event_def is_mutation_def admin_claim_def no_arguments_def
      getProductById_def listProducts_def productsByCategory_def
      recording_env_def recording_client_def)

text \<open>
  C8. When \<open>fieldName\<close> is none of the six operation names, the \<open>switch\<close> falls to its
  default: the dispatch returns \<open>null\<close>, throws nothing and leaves the store as it was,
  whatever the client is.
\<close>

theorem handler_unknown_operation:
  "fieldName (info ev) \<notin> {''getProductById'', ''createProduct'', ''listProducts'',
      ''deleteProduct'', ''updateProduct'', ''productsByCategory''} \<Longrightarrow>
   handler e ev s = (Inr JNull, s)"
  by (simp add: handler_def)

theorem handler_unknown_operation_witness:
  "''purgeProducts'' \<notin> {''getProductById'', ''createProduct'', ''listProducts'',
      ''deleteProduct'', ''updateProduct'', ''productsByCategory''} \<and>
   handler recording_env (mk_event ''purgeProducts'' no_arguments None) [] = (Inr JNull, [])"
  using handler_unknown_operation [of "mk_event ''purgeProducts'' no_arguments None"
      recording_env "[]"]
  by (simp add: mk_event_def)

text \<open>
  C10. The guard looks at the \<open>cognito:groups\<close> entry of the claims only: two identities
  with the same entry under that key get the same answer, whatever their other claims,
  and an identity without that entry is refused each of the three mutations, also when
  \<open>Admin\<close> is listed under another key.
\<close>

theorem guard_reads_only_cognito_groups:
  "(\<forall>i j. claims i ''cognito:groups'' = claims j ''cognito:groups'' \<longrightarrow>
       checkForGroup (ev\<lparr>identity := Some i\<rparr>) g = checkForGroup (ev\<lparr>identity := Some j\<rparr>) g) \<and>
   (\<forall>i. identity ev = Some i \<longrightarrow> claims i ''cognito:groups'' = None \<longrightarrow>
       is_mutation (fieldName (info ev)) \<longrightarrow>
       handler e ev s = (Inl (Error ''unauthorized''), s))"
proof -
  have "handler e ev s = (Inl (Error ''unauthorized''), s)"
    if "identity ev = Some i" "claims i ''cognito:groups'' = None"
       "is_mutation (fieldName (info ev))" for i
    using that handler_unauthorized [of ev e s] by (simp add: checkForGroup_iff)
  then show ?thesis
    by (simp add: checkForGroup_iff)
qed

theorem guard_reads_only_cognito_groups_witness:
  "handler recording_env (mk_event ''createProduct'' no_arguments
       (Some \<lparr>username = ''eve'', claims = [''custom:groups'' \<mapsto> [''Admin'']]\<rparr>)) []
     = (Inl (Error ''unauthorized''), []) \<and>
   handler recording_env (mk_event ''updateProduct'' no_arguments
       (Some \<lparr>username = ''eve'', claims = [''groups'' \<mapsto> [''Admin'']]\<rparr>)) []
     = (Inl (Error ''unauthorized''), []) \<and>
   handler recording_env (mk_event ''deleteProduct'' no_arguments
       (Some \<lparr>username = ''eve'', claims = [''Cognito:Groups'' \<mapsto> [''Admin'']]\<rparr>)) []
     = (Inl (Error ''unauthorized''), []) \<and>
   checkForGroup (mk_event ''createProduct'' no_arguments
       (Some \<lparr>username = ''eve'',
              claims = [''cognito:groups'' \<mapsto> [''Editors''], ''roles'' \<mapsto> [''Admin'']]\<rparr>)) ''Admin''
     = checkForGroup (mk_event ''createProduct'' no_arguments
       (Some \<lparr>username = ''eve'', claims = [''cognito:groups'' \<mapsto> [''Editors'']]\<rparr>)) ''Admin''"
  using
    guard_reads_only_cognito_groups [of "mk_event ''createProduct'' no_arguments
       (Some \<lparr>username = ''eve'', claims = [''custom:groups'' \<mapsto> [''Admin'']]\<rparr>)"
       "''Admin''" recording_env "[]"]
    guard_reads_only_cognito_groups [of "mk_event ''updateProduct'' no_arguments
       (Some \<lparr>username = ''eve'', claims = [''groups'' \<mapsto> [''Admin'']]\<rparr>)"
       "''Admin''" recording_env "[]"]
    guard_reads_only_cognito_groups [of "mk_event ''deleteProduct'' no_arguments
       (Some \<lparr>username = ''eve'', claims = [''Cognito:Groups'' \<mapsto> [''Admin'']]\<rparr>)"
       "''Admin''" recording_env "[]"]
    guard_reads_only_cognito_groups [of "mk_event ''createProduct'' no_arguments None"
       "''Admin''" recording_env "[]", THEN conjunct1, rule_format,
       of "\<lparr>username = ''eve'',
              claims = [''cognito:groups'' \<mapsto> [''Editors''], ''roles'' \<mapsto> [''Admin'']]\<rparr>"
          "\<lparr>username = ''eve'', claims = [''cognito:groups'' \<mapsto> [''Editors'']]\<rparr>"]
  by (simp add: mk_event_def is_mutation_def)

section \<open>What the update expression of \<open>updateProduct\<close> means to the table\<close>

text \<open>
  The expression that the loop writes for attributes with valid names is read back by the
  table as one action per attribute, each resolved through the two maps to the attribute
  and the value of the input.
\<close>

lemma strip_prefix_append: "strip_prefix p (p @ r) = Some r"
  by (induction p) auto

lemma ends_name: "r = [] \<or> \<not> name_char (hd r) \<Longrightarrow> takeWhile name_char r = []"
  by (cases r) auto

lemma ends_name_drop: "r = [] \<or> \<not> name_char (hd r) \<Longrightarrow> dropWhile name_char r = r"
  by (cases r) auto

lemma placeholder_name:
  assumes "valid_name a" and "r = [] \<or> \<not> name_char (hd r)"
  shows "placeholder c (c # a @ r) = Some (c # a, r)"
proof -
  have all: "\<forall>x\<in>set a. name_char x" and ne: "a \<noteq> []"
    using assms(1) by (auto simp: valid_name_def list_all_iff)
  have "takeWhile name_char (a @ r) = a"
    using all ends_name [OF assms(2)] by simp
  moreover have "dropWhile name_char (a @ r) = r"
    using all ends_name_drop [OF assms(2)] by simp
  ultimately show ?thesis
    using ne by (simp add: placeholder_def)
qed

lemma not_name_char_space: "\<not> name_char (CHR '' '')"
  by (simp add: name_char_def)

lemma not_name_char_comma: "\<not> name_char (CHR '','')"
  by (simp add: name_char_def)

lemma set_action_clause:
  assumes "valid_name a" and "r = [] \<or> \<not> name_char (hd r)"
  shows "set_action (clause a @ r) = Some ((''#'' @ a, '':'' @ a), r)"
proof -
  have 1: "placeholder (CHR ''#'') (CHR ''#'' # a @ ('' = :'' @ a @ r))
             = Some (CHR ''#'' # a, '' = :'' @ a @ r)"
    by (rule placeholder_name [OF assms(1)]) (simp add: not_name_char_space)
  have 2: "strip_prefix '' = '' ('' = '' @ (CHR '':'' # a @ r)) = Some (CHR '':'' # a @ r)"
    by (rule strip_prefix_append)
  have 3: "placeholder (CHR '':'') (CHR '':'' # a @ r) = Some (CHR '':'' # a, r)"
    by (rule placeholder_name [OF assms])
  have "clause a @ r = CHR ''#'' # a @ ('' = :'' @ a @ r)"
    by (simp add: clause_def)
  then show ?thesis
    using 1 2 3 by (simp add: set_action_def)
qed

lemma set_actions_clauses:
  assumes "valid_name a" and "\<forall>b\<in>set rest. valid_name b"
  shows "set_actions (clause a @ concat (map (\<lambda>b. '', '' @ clause b) rest))
           = Some (map (\<lambda>b. (''#'' @ b, '':'' @ b)) (a # rest))"
  using assms
proof (induction rest arbitrary: a)
  case Nil
  have "set_action (clause a @ []) = Some ((''#'' @ a, '':'' @ a), [])"
    by (rule set_action_clause [OF Nil(1)]) simp
  then show ?case
    by (subst set_actions.simps) simp
next
  case (Cons b rest)
  let ?tail = "clause b @ concat (map (\<lambda>b. '', '' @ clause b) rest)"
  have "set_action (clause a @ ('', '' @ ?tail)) = Some ((''#'' @ a, '':'' @ a), '', '' @ ?tail)"
    by (rule set_action_clause [OF Cons.prems(1)]) (simp add: not_name_char_comma)
  moreover have "strip_prefix '', '' ('', '' @ ?tail) = Some ?tail"
    by (rule strip_prefix_append)
  moreover have "set_actions ?tail = Some (map (\<lambda>b. (''#'' @ b, '':'' @ b)) (b # rest))"
    using Cons.IH [of b] Cons.prems by simp
  ultimately show ?case
    by (subst set_actions.simps) simp
qed

lemma render_comma: "render '', '' ks = concat (map (\<lambda>b. '', '' @ clause b) ks)"
  by (cases ks) (simp_all add: render_def)

lemma loop_UpdateExpression:
  "UpdateExpression (fst (updateProduct_loop pr attrs (p, prefix)))
     = UpdateExpression p @ render prefix (filter (\<lambda>a. a \<noteq> ''id'') attrs)"
proof (induction attrs arbitrary: p prefix)
  case Nil
  then show ?case by (simp add: render_def)
next
  case (Cons a attrs)
  show ?case
  proof (cases "a = ''id''")
    case True
    then show ?thesis using Cons.IH by simp
  next
    case False
    then show ?thesis
      by (simp add: Cons.IH render_comma) (simp add: render_def clause_def)
  qed
qed

lemma loop_frame:
  "Key (fst (updateProduct_loop pr attrs (p, prefix))) = Key p \<and>
   TableName (fst (updateProduct_loop pr attrs (p, prefix))) = TableName p"
  by (induction attrs arbitrary: p prefix) auto

lemma loop_Cons:
  "updateProduct_loop pr (b # attrs) (p, prefix) =
     (if b \<noteq> ''id'' then updateProduct_loop pr attrs (add_clause pr b p prefix, '', '')
      else updateProduct_loop pr attrs (p, prefix))"
  by (simp add: add_clause_def)

lemma add_clause_names:
  "map_of (ExpressionAttributeNames (add_clause pr b p prefix)) (CHR ''#'' # a)
     = (if a = b then Some (JStr b) else map_of (ExpressionAttributeNames p) (CHR ''#'' # a))"
  by (simp add: add_clause_def obj_set_def update_conv')

lemma add_clause_values:
  "map_of (ExpressionAttributeValues (add_clause pr b p prefix)) (CHR '':'' # a)
     = (if a = b then Some (obj_get pr b)
        else map_of (ExpressionAttributeValues p) (CHR '':'' # a))"
  by (simp add: add_clause_def obj_set_def update_conv')

lemma loop_names:
  "a \<in> set attrs \<and> a \<noteq> ''id'' \<or>
     map_of (ExpressionAttributeNames p) (CHR ''#'' # a) = Some (JStr a)
   \<Longrightarrow> map_of (ExpressionAttributeNames (fst (updateProduct_loop pr attrs (p, prefix))))
         (CHR ''#'' # a) = Some (JStr a)"
proof (induction attrs arbitrary: p prefix)
  case Nil
  then show ?case by simp
next
  case (Cons b attrs)
  show ?case
  proof (cases "b = ''id''")
    case True
    then have "a \<in> set attrs \<and> a \<noteq> ''id'' \<or>
        map_of (ExpressionAttributeNames p) (CHR ''#'' # a) = Some (JStr a)"
      using Cons.prems by auto
    then show ?thesis
      unfolding loop_Cons using True Cons.IH [of p prefix] by simp
  next
    case False
    have "a \<in> set attrs \<and> a \<noteq> ''id'' \<or>
        map_of (ExpressionAttributeNames (add_clause pr b p prefix)) (CHR ''#'' # a)
          = Some (JStr a)"
      using Cons.prems by (auto simp: add_clause_names)
    then show ?thesis
      unfolding loop_Cons using False Cons.IH [of "add_clause pr b p prefix" "'', ''"] by simp
  qed
qed

lemma loop_values:
  "a \<in> set attrs \<and> a \<noteq> ''id'' \<or>
     map_of (ExpressionAttributeValues p) (CHR '':'' # a) = Some (obj_get pr a)
   \<Longrightarrow> map_of (ExpressionAttributeValues (fst (updateProduct_loop pr attrs (p, prefix))))
         (CHR '':'' # a) = Some (obj_get pr a)"
proof (induction attrs arbitrary: p prefix)
  case Nil
  then show ?case by simp
next
  case (Cons b attrs)
  show ?case
  proof (cases "b = ''id''")
    case True
    then have "a \<in> set attrs \<and> a \<noteq> ''id'' \<or>
        map_of (ExpressionAttributeValues p) (CHR '':'' # a) = Some (obj_get pr a)"
      using Cons.prems by auto
    then show ?thesis
      unfolding loop_Cons using True Cons.IH [of p prefix] by simp
  next
    case False
    have "a \<in> set attrs \<and> a \<noteq> ''id'' \<or>
        map_of (ExpressionAttributeValues (add_clause pr b p prefix)) (CHR '':'' # a)
          = Some (obj_get pr a)"
      using Cons.prems by (auto simp: add_clause_values)
    then show ?thesis
      unfolding loop_Cons using False Cons.IH [of "add_clause pr b p prefix" "'', ''"] by simp
  qed
qed

lemma those_map_Some: "\<forall>x\<in>set xs. f x = Some (g x) \<Longrightarrow> those (map f xs) = Some (map g xs)"
  by (induction xs) auto

lemma map_of_apply_actions:
  "map_of (apply_actions (map (\<lambda>a. (a, g a)) ks) it) a
     = (if a \<in> set ks then Some (g a) else map_of it a)"
proof (induction ks arbitrary: it)
  case Nil
  then show ?case by (simp add: apply_actions_def)
next
  case (Cons k ks)
  have "apply_actions (map (\<lambda>a. (a, g a)) (k # ks)) it
          = apply_actions (map (\<lambda>a. (a, g a)) ks) (AList.update k (g k) it)"
    by (simp add: apply_actions_def)
  then show ?case
    by (simp add: Cons.IH update_conv')
qed

lemma updateProduct_params_fields:
  "UpdateExpression (updateProduct_params e pr) = render ''set '' (patch_keys pr)"
  "Key (updateProduct_params e pr) = [(''id'', obj_get pr ''id'')]"
  "TableName (updateProduct_params e pr) = PRODUCT_TABLE e"
  by (simp_all add: updateProduct_params_def loop_UpdateExpression loop_frame patch_keys_def)

lemma updateProduct_params_resolve:
  assumes "a \<in> set (patch_keys pr)"
  shows "resolve_action (ExpressionAttributeNames (updateProduct_params e pr))
           (ExpressionAttributeValues (updateProduct_params e pr))
           (CHR ''#'' # a, CHR '':'' # a)
         = Some (a, obj_get pr a)"
proof -
  have "a \<in> set (Object_keys pr) \<and> a \<noteq> ''id''"
    using assms by (simp add: patch_keys_def)
  then show ?thesis
    unfolding resolve_action_def updateProduct_params_def
    by (simp add: loop_names loop_values)
qed

lemma parse_render:
  assumes "\<forall>a\<in>set ks. valid_name a"
  shows "parse_update_expression (render ''set '' ks)
           = (if ks = [] then None else Some (map (\<lambda>b. (''#'' @ b, '':'' @ b)) ks))"
proof (cases ks)
  case Nil
  then show ?thesis by (simp add: render_def parse_update_expression_def)
next
  case (Cons a rest)
  have "strip_prefix ''set '' (''set '' @ (clause a @ concat (map (\<lambda>b. '', '' @ clause b) rest)))
          = Some (clause a @ concat (map (\<lambda>b. '', '' @ clause b) rest))"
    by (rule strip_prefix_append)
  moreover have "set_actions (clause a @ concat (map (\<lambda>b. '', '' @ clause b) rest))
          = Some (map (\<lambda>b. (''#'' @ b, '':'' @ b)) (a # rest))"
    using assms Cons by (intro set_actions_clauses) auto
  ultimately show ?thesis
    using Cons by (simp add: render_def parse_update_expression_def)
qed

text \<open>
  What the table does with the request of \<open>updateProduct\<close>, for an input whose \<open>id\<close>
  is a string and whose other attribute names are made of name characters.
\<close>

lemma update_request_on_table:
  assumes "obj_get pr ''id'' = JStr pid"
    and "\<forall>a\<in>set (patch_keys pr). valid_name a"
  shows "docClient (dynamo_env tn u) (Update (updateProduct_params (dynamo_env tn u) pr)) tbl =
           (if patch_keys pr = [] then (Inl ValidationException, tbl)
            else (Inr no_data,
                  AList.update pid
                    (apply_actions (map (\<lambda>a. (a, obj_get pr a)) (patch_keys pr))
                       (case map_of tbl pid of None \<Rightarrow> [(''id'', JStr pid)] | Some it \<Rightarrow> it))
                    tbl))"
proof -
  let ?p = "updateProduct_params (dynamo_env tn u) pr"
  let ?asg = "map (\<lambda>a. (a, obj_get pr a)) (patch_keys pr)"
  have kp: "Key ?p = [(''id'', JStr pid)]"
    by (simp add: updateProduct_params_fields assms(1))
  have key: "key_of [(''id'', JStr pid)] = Some pid"
    by (simp add: key_of_def)
  have tn: "table_error tn (TableName ?p) = None"
    by (simp add: updateProduct_params_fields table_error_def dynamo_env_def)
  have parse: "parse_update_expression (UpdateExpression ?p)
                 = (if patch_keys pr = [] then None
                    else Some (map (\<lambda>b. (''#'' @ b, '':'' @ b)) (patch_keys pr)))"
    by (simp add: updateProduct_params_fields parse_render [OF assms(2)])
  have res: "those (map (resolve_action (ExpressionAttributeNames ?p)
                           (ExpressionAttributeValues ?p))
                      (map (\<lambda>b. (''#'' @ b, '':'' @ b)) (patch_keys pr))) = Some ?asg"
    unfolding map_map comp_def
    by (rule those_map_Some) (simp add: updateProduct_params_resolve)
  have noid: "(''id'' \<in> set (map fst ?asg)) = False"
    by (simp add: patch_keys_def comp_def)
  have upd: "table_update ?p tbl =
           (if patch_keys pr = [] then (Inl ValidationException, tbl)
            else (Inr no_data,
                  AList.update pid
                    (apply_actions ?asg
                       (case map_of tbl pid of None \<Rightarrow> [(''id'', JStr pid)] | Some it \<Rightarrow> it))
                    tbl))"
  proof (cases "patch_keys pr = []")
    case True
    then show ?thesis
      unfolding table_update_def kp key parse by simp
  next
    case False
    then show ?thesis
      unfolding table_update_def kp key parse
      by (simp only: if_False option.case res noid)
  qed
  have "docClient (dynamo_env tn u) (Update ?p) tbl = table_update ?p tbl"
    using tn by (simp add: dynamo_env_def dynamo_client_def)
  then show ?thesis
    by (simp add: upd)
qed

lemma updateProduct_on_table:
  assumes "obj_get pr ''id'' = JStr pid"
    and "\<forall>a\<in>set (patch_keys pr). valid_name a"
  shows "updateProduct (dynamo_env tn u) pr tbl =
           (if patch_keys pr = [] then (Inr JNull, tbl)
            else (Inr (JObj pr),
                  AList.update pid
                    (apply_actions (map (\<lambda>a. (a, obj_get pr a)) (patch_keys pr))
                       (case map_of tbl pid of None \<Rightarrow> [(''id'', JStr pid)] | Some it \<Rightarrow> it))
                    tbl))"
  by (simp add: updateProduct_def update_request_on_table [OF assms])

section \<open>Properties of the handlers\<close>

lemma handlers_return:
  "getProductById e pid s \<noteq> (Inl x, s')"
  "listProducts e s \<noteq> (Inl x, s')"
  "productsByCategory e cat s \<noteq> (Inl x, s')"
  "createProduct e pr s \<noteq> (Inl x, s')"
  "updateProduct e pr s \<noteq> (Inl x, s')"
  "deleteProduct e pid s \<noteq> (Inl x, s')"
  by (simp_all add: getProductById_def listProducts_def productsByCategory_def
      createProduct_def updateProduct_def deleteProduct_def Let_def
      split: prod.splits sum.splits)

lemma handlers_catch:
  "docClient e (Get (PRODUCT_TABLE e) [(''id'', JStr pid)]) s = (Inl err, s') \<Longrightarrow>
     getProductById e pid s = (Inr JUndefined, s')"
  "docClient e (Scan (PRODUCT_TABLE e)) s = (Inl err, s') \<Longrightarrow>
     listProducts e s = (Inr JNull, s')"
  "docClient e (Query (PRODUCT_TABLE e) ''productsByCategory'' ''#fieldName = :category''
       [(''#fieldName'', JStr ''category'')] [('':category'', JStr cat)]) s = (Inl err, s') \<Longrightarrow>
     productsByCategory e cat s = (Inr JNull, s')"
  "docClient e (Put (PRODUCT_TABLE e)
       (if \<not> truthy (obj_get pr ''id'') then obj_set pr ''id'' (JStr (uuid e)) else pr)) s
     = (Inl err, s') \<Longrightarrow>
     createProduct e pr s = (Inr JNull, s')"
  "docClient e (Update (updateProduct_params e pr)) s = (Inl err, s') \<Longrightarrow>
     updateProduct e pr s = (Inr JNull, s')"
  "docClient e (Delete (PRODUCT_TABLE e) [(''id'', JStr pid)]) s = (Inl err, s') \<Longrightarrow>
     deleteProduct e pid s = (Inr JNull, s')"
  by (simp_all add: getProductById_def listProducts_def productsByCategory_def
      createProduct_def updateProduct_def deleteProduct_def Let_def)

lemma handler_throws_only_unauthorized:
  "handler e ev s = (Inl x, s') \<Longrightarrow> x = Error ''unauthorized''"
  by (auto simp: handler_def Let_def handlers_return split: if_splits)

text \<open>
  C7. Whatever the client is: when it rejects the call a handler makes, \<open>getProductById\<close>
  returns \<open>undefined\<close> and each of the other five handlers returns \<open>null\<close>; no handler
  ever throws; and the only error a dispatch throws is \<open>Error('unauthorized')\<close>.
\<close>

theorem handlers_swallow_store_failures:
  "(\<forall>err s'. docClient e (Get (PRODUCT_TABLE e) [(''id'', JStr pid)]) s = (Inl err, s') \<longrightarrow>
      getProductById e pid s = (Inr JUndefined, s')) \<and>
   (\<forall>err s'. docClient e (Scan (PRODUCT_TABLE e)) s = (Inl err, s') \<longrightarrow>
      listProducts e s = (Inr JNull, s')) \<and>
   (\<forall>err s'. docClient e (Query (PRODUCT_TABLE e) ''productsByCategory''
        ''#fieldName = :category'' [(''#fieldName'', JStr ''category'')]
        [('':category'', JStr cat)]) s = (Inl err, s') \<longrightarrow>
      productsByCategory e cat s = (Inr JNull, s')) \<and>
   (\<forall>err s'. docClient e (Put (PRODUCT_TABLE e)
        (if \<not> truthy (obj_get pr ''id'') then obj_set pr ''id'' (JStr (uuid e)) else pr)) s
        = (Inl err, s') \<longrightarrow>
      createProduct e pr s = (Inr JNull, s')) \<and>
   (\<forall>err s'. docClient e (Update (updateProduct_params e pr)) s = (Inl err, s') \<longrightarrow>
      updateProduct e pr s = (Inr JNull, s')) \<and>
   (\<forall>err s'. docClient e (Delete (PRODUCT_TABLE e) [(''id'', JStr pid)]) s = (Inl err, s') \<longrightarrow>
      deleteProduct e pid s = (Inr JNull, s')) \<and>
   (\<forall>x s'. getProductById e pid s \<noteq> (Inl x, s') \<and> listProducts e s \<noteq> (Inl x, s') \<and>
      productsByCategory e cat s \<noteq> (Inl x, s') \<and> createProduct e pr s \<noteq> (Inl x, s') \<and>
      updateProduct e pr s \<noteq> (Inl x, s') \<and> deleteProduct e pid s \<noteq> (Inl x, s')) \<and>
   (\<forall>x s'. handler e ev s = (Inl x, s') \<longrightarrow> x = Error ''unauthorized'')"
proof (intro conjI allI impI)
  fix x s'
  assume "handler e ev s = (Inl x, s')"
  then show "x = Error ''unauthorized''"
    by (rule handler_throws_only_unauthorized)
qed (auto simp: handlers_return intro: handlers_catch)

text \<open>
  With a client that rejects every call, each handler returns \<open>null\<close> or \<open>undefined\<close>,
  also when an administrator dispatches it; the anonymous dispatch of a mutation throws.
\<close>

theorem handlers_swallow_store_failures_witness:
  "getProductById failing_env ''1'' () = (Inr JUndefined, ()) \<and>
   listProducts failing_env () = (Inr JNull, ()) \<and>
   productsByCategory failing_env ''x'' () = (Inr JNull, ()) \<and>
   createProduct failing_env [(''name'', JStr ''A'')] () = (Inr JNull, ()) \<and>
   updateProduct failing_env [(''name'', JStr ''A'')] () = (Inr JNull, ()) \<and>
   deleteProduct failing_env ''1'' () = (Inr JNull, ()) \<and>
   handler failing_env (mk_event ''deleteProduct'' no_arguments (Some admin)) ()
     = (Inr JNull, ()) \<and>
   handler failing_env (mk_event ''deleteProduct'' no_arguments None) ()
     = (Inl (Error ''unauthorized''), ())"
proof -
  have rej: "docClient failing_env req () = (Inl ServiceFailure, ())" for req
    by (simp add: failing_env_def failing_client_def)
  have "handler failing_env (mk_event ''deleteProduct'' no_arguments (Some admin)) ()
          = (Inr JNull, ())"
    by (simp add: handler_def mk_event_def checkForGroup_def admin_def deleteProduct_def
        failing_env_def failing_client_def)
  moreover have "handler failing_env (mk_event ''deleteProduct'' no_arguments None) ()
          = (Inl (Error ''unauthorized''), ())"
    by (simp add: handler_def mk_event_def checkForGroup_def)
  ultimately show ?thesis
    using handlers_swallow_store_failures [of failing_env "''1''" "()" "''x''"
        "[(''name'', JStr ''A'')]" "mk_event ''deleteProduct'' no_arguments None"]
    by (simp add: rej)
qed

text \<open>
  C5. When the client accepts the update request, \<open>updateProduct\<close> returns the object it
  was given, whatever the client has stored.
\<close>

theorem updateProduct_returns_input:
  "docClient e (Update (updateProduct_params e pr)) s = (Inr r, s') \<Longrightarrow>
   updateProduct e pr s = (Inr (JObj pr), s')"
  by (simp add: updateProduct_def)

text \<open>The attribute names of \<open>UpdateProductInput\<close> are made of name characters.\<close>

lemma valid_name_schema:
  "valid_name ''name''" "valid_name ''description''" "valid_name ''price''"
  "valid_name ''category''" "valid_name ''sku''" "valid_name ''inventory''"
  by (simp_all add: valid_name_def name_char_def)

lemma p5_request:
  "docClient shop_env
     (Update (updateProduct_params shop_env [(''id'', JStr ''1''), (''price'', JNum 20)]))
     shop_table
   = (Inr no_data, [(''1'', [(''id'', JStr ''1''), (''name'', JStr ''A''), (''price'', JNum 20),
                             (''category'', JStr ''x'')])])"
proof -
  have "obj_get [(''id'', JStr ''1''), (''price'', JNum 20)] ''id'' = JStr ''1''"
    by (simp add: obj_get_def)
  moreover have "\<forall>a\<in>set (patch_keys [(''id'', JStr ''1''), (''price'', JNum 20)]). valid_name a"
    by (simp add: patch_keys_def Object_keys_def valid_name_schema)
  ultimately show ?thesis
    unfolding shop_env_def
    by (simp add: update_request_on_table patch_keys_def Object_keys_def shop_table_def
        apply_actions_def obj_get_def)
qed

text \<open>
  On the spec's example the patch \<open>{id: "1", price: 20}\<close> comes back as it went in,
  while the table holds the merged record with \<open>name\<close> and \<open>category\<close>.
\<close>

theorem updateProduct_returns_input_witness:
  "updateProduct shop_env [(''id'', JStr ''1''), (''price'', JNum 20)] shop_table
     = (Inr (JObj [(''id'', JStr ''1''), (''price'', JNum 20)]),
        [(''1'', [(''id'', JStr ''1''), (''name'', JStr ''A''), (''price'', JNum 20),
                  (''category'', JStr ''x'')])]) \<and>
   JObj [(''id'', JStr ''1''), (''price'', JNum 20)]
     \<noteq> JObj [(''id'', JStr ''1''), (''name'', JStr ''A''), (''price'', JNum 20),
              (''category'', JStr ''x'')]"
  using updateProduct_returns_input [OF p5_request] by simp

section \<open>The identifier generator: shape and collisions\<close>

lemma length_v4_octets: "length (v4_octets r) = 16"
  by (simp add: v4_octets_def)

lemma list_update_bound:
  "\<forall>x\<in>set xs. x < n \<Longrightarrow> v < n \<Longrightarrow> \<forall>x\<in>set (xs[i := v]). x < (n::nat)"
  using set_update_subset_insert [of xs i v] by auto

lemma v4_octets_bound: "\<forall>x\<in>set (v4_octets r). x < 256"
  unfolding v4_octets_def
  by (intro list_update_bound) simp_all

lemma length_hex: "length (concat (map byte_hex xs)) = 2 * length xs"
  by (induction xs) (simp_all add: byte_hex_def)

lemma length_uuid_v4: "length (uuid_v4 r) = 36"
  by (simp add: uuid_v4_def Let_def length_hex length_v4_octets)

lemma uuid_v4_version: "uuid_v4 r ! 14 = CHR ''4''"
  by (simp add: uuid_v4_def v4_octets_def byte_hex_def hex_digit_def upt_rec Let_def)

lemma hex_digit_inj: "hex_digit a = hex_digit b \<longleftrightarrow> a mod 16 = b mod 16"
proof -
  have "distinct ''0123456789abcdef''"
    by simp
  moreover have "a mod 16 < length ''0123456789abcdef''"
    "b mod 16 < length ''0123456789abcdef''"
    by simp_all
  ultimately show ?thesis
    unfolding hex_digit_def by (rule nth_eq_iff_index_eq)
qed

lemma byte_hex_inj:
  assumes "x < 256" "y < 256" "byte_hex x = byte_hex y"
  shows "x = y"
proof -
  have "x div 16 mod 16 = y div 16 mod 16" "x mod 16 = y mod 16"
    using assms(3) by (simp_all add: byte_hex_def hex_digit_inj)
  moreover have "x div 16 < 16" "y div 16 < 16"
    using assms(1,2) by simp_all
  ultimately have "x div 16 = y div 16" "x mod 16 = y mod 16"
    by simp_all
  then show ?thesis
    by (metis div_mult_mod_eq)
qed

lemma hex_inj:
  assumes "length xs = length ys" "\<forall>x\<in>set xs. x < 256" "\<forall>y\<in>set ys. y < 256"
    "concat (map byte_hex xs) = concat (map byte_hex ys)"
  shows "xs = ys"
  using assms
proof (induction xs ys rule: list_induct2)
  case Nil
  then show ?case by simp
next
  case (Cons x xs y ys)
  have "byte_hex x @ concat (map byte_hex xs) = byte_hex y @ concat (map byte_hex ys)"
    using Cons.prems(3) by simp
  then have "byte_hex x = byte_hex y" "concat (map byte_hex xs) = concat (map byte_hex ys)"
    by (simp_all add: byte_hex_def)
  then show ?case
    using Cons.IH Cons.prems(1,2) byte_hex_inj [of x y] by simp
qed

lemma hyphens_inj:
  assumes "length h = 32" "length h' = 32"
    "take 8 h @ ''-'' @ take 4 (drop 8 h) @ ''-'' @ take 4 (drop 12 h) @ ''-'' @
       take 4 (drop 16 h) @ ''-'' @ drop 20 h
     = take 8 h' @ ''-'' @ take 4 (drop 8 h') @ ''-'' @ take 4 (drop 12 h') @ ''-'' @
       take 4 (drop 16 h') @ ''-'' @ drop 20 h'"
  shows "h = h'"
proof -
  have parts: "take 8 h = take 8 h'" "take 4 (drop 8 h) = take 4 (drop 8 h')"
    "take 4 (drop 12 h) = take 4 (drop 12 h')" "take 4 (drop 16 h) = take 4 (drop 16 h')"
    "drop 20 h = drop 20 h'"
    using assms by simp_all
  have whole: "k = take 8 k @ take 4 (drop 8 k) @ take 4 (drop 12 k) @ take 4 (drop 16 k)
                     @ drop 20 k"
    for k :: string
  proof -
    have "take 4 (drop 16 k) @ drop 20 k = drop 16 k"
      using append_take_drop_id [of 4 "drop 16 k"] by simp
    moreover have "take 4 (drop 12 k) @ drop 16 k = drop 12 k"
      using append_take_drop_id [of 4 "drop 12 k"] by simp
    moreover have "take 4 (drop 8 k) @ drop 12 k = drop 8 k"
      using append_take_drop_id [of 4 "drop 8 k"] by simp
    ultimately show ?thesis
      by simp
  qed
  show ?thesis
    by (subst whole [of h], subst whole [of h']) (simp only: parts)
qed

text \<open>
  Two draws give the same identifier exactly when they agree in the 16 octets after the
  version and the variant have been set, that is in all their 122 random bits.
\<close>

lemma uuid_v4_inj: "uuid_v4 r = uuid_v4 r' \<longleftrightarrow> v4_octets r = v4_octets r'"
proof
  assume eq: "uuid_v4 r = uuid_v4 r'"
  have "concat (map byte_hex (v4_octets r)) = concat (map byte_hex (v4_octets r'))"
    by (rule hyphens_inj)
      (use eq in \<open>simp_all add: uuid_v4_def Let_def length_hex length_v4_octets\<close>)
  then show "v4_octets r = v4_octets r'"
    by (intro hex_inj) (simp_all add: length_v4_octets v4_octets_bound)
next
  assume "v4_octets r = v4_octets r'"
  then show "uuid_v4 r = uuid_v4 r'"
    by (simp add: uuid_v4_def)
qed

lemma uuid_v4_sample: "uuid_v4 sample_octets = ''1b4e28ba-2fa1-41d2-883f-0016d3cca427''"
  by (simp add: uuid_v4_def v4_octets_def sample_octets_def byte_hex_def hex_digit_def upt_rec)

section \<open>Properties of \<open>createProduct\<close>, \<open>updateProduct\<close> and \<open>deleteProduct\<close> on the table\<close>

lemma put_on_table:
  assumes "map_of it ''id'' = Some (JStr k)"
  shows "docClient (dynamo_env tn d) (Put (PRODUCT_TABLE (dynamo_env tn d)) it) tbl
           = (Inr no_data, AList.update k it tbl)"
  using assms by (simp add: dynamo_env_def dynamo_client_def table_error_def table_put_def)

lemma createProduct_generates:
  assumes "obj_get pr ''id'' \<in> {JUndefined, JNull, JStr []}"
  shows "createProduct (dynamo_env tn d) pr tbl
           = (Inr (JObj (obj_set pr ''id'' (JStr (uuid_v4 d)))),
              AList.update (uuid_v4 d) (obj_set pr ''id'' (JStr (uuid_v4 d))) tbl)"
proof -
  have falsy: "\<not> truthy (obj_get pr ''id'')"
    using assms by auto
  have "map_of (obj_set pr ''id'' (JStr (uuid_v4 d))) ''id'' = Some (JStr (uuid_v4 d))"
    by (simp add: obj_set_def update_conv')
  then have "docClient (dynamo_env tn d)
               (Put (PRODUCT_TABLE (dynamo_env tn d)) (obj_set pr ''id'' (JStr (uuid_v4 d)))) tbl
             = (Inr no_data, AList.update (uuid_v4 d) (obj_set pr ''id'' (JStr (uuid_v4 d))) tbl)"
    by (rule put_on_table)
  moreover have "uuid (dynamo_env tn d) = uuid_v4 d"
    by (simp add: uuid_def dynamo_env_def)
  ultimately show ?thesis
    using falsy by (simp add: createProduct_def Let_def)
qed

lemma createProduct_keeps:
  assumes "obj_get pr ''id'' = JStr k" "k \<noteq> []"
  shows "createProduct (dynamo_env tn d) pr tbl = (Inr (JObj pr), AList.update k pr tbl)"
proof -
  have "map_of pr ''id'' = Some (JStr k)"
    using assms(1) by (auto simp: obj_get_def split: option.splits)
  then have "docClient (dynamo_env tn d) (Put (PRODUCT_TABLE (dynamo_env tn d)) pr) tbl
             = (Inr no_data, AList.update k pr tbl)"
    by (rule put_on_table)
  then show ?thesis
    using assms by (simp add: createProduct_def Let_def)
qed

text \<open>
  C3. On the table, \<open>createProduct\<close> of an input whose \<open>id\<close> is missing, null or the
  empty string assigns the identifier that the generator makes of the octets drawn for the
  call, leaves the other attributes as they were, writes the object under that id and
  returns it. The identifier is not empty: it has 36 characters, with the version digit 4.
  It is collision-resistant: another draw gives the same identifier only if it agrees with
  this one in all 122 random bits, and after a second create without id from a draw that
  differs in one of them, the record of the first is still stored, under its own id. An
  input with a non-empty string \<open>id\<close> is written under that id as it is and returned as
  it is. In both cases the put replaces whatever the table held under the id and touches
  no other key.
\<close>

theorem createProduct_id_and_put:
  "(obj_get pr ''id'' \<in> {JUndefined, JNull, JStr []} \<longrightarrow>
      createProduct (dynamo_env tn d) pr tbl
        = (Inr (JObj (obj_set pr ''id'' (JStr (uuid_v4 d)))),
           AList.update (uuid_v4 d) (obj_set pr ''id'' (JStr (uuid_v4 d))) tbl) \<and>
      uuid_v4 d \<noteq> [] \<and> length (uuid_v4 d) = 36 \<and> uuid_v4 d ! 14 = CHR ''4'' \<and>
      (\<forall>d'. uuid_v4 d' = uuid_v4 d \<longleftrightarrow> v4_octets d' = v4_octets d) \<and>
      (\<forall>d' pr'. obj_get pr' ''id'' \<in> {JUndefined, JNull, JStr []} \<and>
           v4_octets d' \<noteq> v4_octets d \<longrightarrow>
         uuid_v4 d' \<noteq> uuid_v4 d \<and>
         map_of (snd (createProduct (dynamo_env tn d') pr'
                        (snd (createProduct (dynamo_env tn d) pr tbl)))) (uuid_v4 d)
           = Some (obj_set pr ''id'' (JStr (uuid_v4 d)))) \<and>
      obj_get (obj_set pr ''id'' (JStr (uuid_v4 d))) ''id'' = JStr (uuid_v4 d) \<and>
      (\<forall>a. a \<noteq> ''id'' \<longrightarrow> obj_get (obj_set pr ''id'' (JStr (uuid_v4 d))) a = obj_get pr a) \<and>
      map_of (AList.update (uuid_v4 d) (obj_set pr ''id'' (JStr (uuid_v4 d))) tbl) (uuid_v4 d)
        = Some (obj_set pr ''id'' (JStr (uuid_v4 d))) \<and>
      (\<forall>j. j \<noteq> uuid_v4 d \<longrightarrow>
         map_of (AList.update (uuid_v4 d) (obj_set pr ''id'' (JStr (uuid_v4 d))) tbl) j
           = map_of tbl j)) \<and>
   (\<forall>k. obj_get pr ''id'' = JStr k \<and> k \<noteq> [] \<longrightarrow>
      createProduct (dynamo_env tn d) pr tbl = (Inr (JObj pr), AList.update k pr tbl) \<and>
      map_of (AList.update k pr tbl) k = Some pr \<and>
      (\<forall>j. j \<noteq> k \<longrightarrow> map_of (AList.update k pr tbl) j = map_of tbl j))"
proof -
  have nonempty: "uuid_v4 d \<noteq> []"
    using length_uuid_v4 [of d] by auto
  have second: "uuid_v4 d' \<noteq> uuid_v4 d \<and>
         map_of (snd (createProduct (dynamo_env tn d') pr'
                        (snd (createProduct (dynamo_env tn d) pr tbl)))) (uuid_v4 d)
           = Some (obj_set pr ''id'' (JStr (uuid_v4 d)))"
    if "obj_get pr ''id'' \<in> {JUndefined, JNull, JStr []}"
      "obj_get pr' ''id'' \<in> {JUndefined, JNull, JStr []}" "v4_octets d' \<noteq> v4_octets d"
    for d' pr'
  proof -
    have "uuid_v4 d' \<noteq> uuid_v4 d"
      using that(3) by (simp add: uuid_v4_inj)
    then show ?thesis
      by (simp add: createProduct_generates [OF that(1)] createProduct_generates [OF that(2)]
          update_conv')
  qed
  have generated: "createProduct (dynamo_env tn d) pr tbl
        = (Inr (JObj (obj_set pr ''id'' (JStr (uuid_v4 d)))),
           AList.update (uuid_v4 d) (obj_set pr ''id'' (JStr (uuid_v4 d))) tbl)"
    if "obj_get pr ''id'' \<in> {JUndefined, JNull, JStr []}"
    using that by (rule createProduct_generates)
  have kept: "createProduct (dynamo_env tn d) pr tbl = (Inr (JObj pr), AList.update k pr tbl)"
    if "obj_get pr ''id'' = JStr k \<and> k \<noteq> []" for k
    using that createProduct_keeps [of pr k tn d tbl] by simp
  show ?thesis
  proof (intro conjI impI allI)
    fix d' pr'
    assume "obj_get pr ''id'' \<in> {JUndefined, JNull, JStr []}"
      and "obj_get pr' ''id'' \<in> {JUndefined, JNull, JStr []} \<and> v4_octets d' \<noteq> v4_octets d"
    then show "uuid_v4 d' \<noteq> uuid_v4 d"
      and "map_of (snd (createProduct (dynamo_env tn d') pr'
                        (snd (createProduct (dynamo_env tn d) pr tbl)))) (uuid_v4 d)
           = Some (obj_set pr ''id'' (JStr (uuid_v4 d)))"
      using second [of pr' d'] by simp_all
  qed (simp_all add: generated kept nonempty length_uuid_v4 uuid_v4_version uuid_v4_inj
      obj_get_def obj_set_def update_conv')
qed

text \<open>
  With the sample draw: a product without id and one with the empty string as id get the
  generated identifier, a product with the id of the stored one replaces it, and of two
  creates without id from draws that differ in octet 0 both records are stored.
\<close>

theorem createProduct_id_and_put_witness:
  "obj_get [(''name'', JStr ''Shoe''), (''price'', JNum 9)] ''id''
     \<in> {JUndefined, JNull, JStr []} \<and>
   createProduct shop_env [(''name'', JStr ''Shoe''), (''price'', JNum 9)] shop_table
     = (Inr (JObj [(''name'', JStr ''Shoe''), (''price'', JNum 9),
                   (''id'', JStr ''1b4e28ba-2fa1-41d2-883f-0016d3cca427'')]),
        shop_table @ [(''1b4e28ba-2fa1-41d2-883f-0016d3cca427'',
           [(''name'', JStr ''Shoe''), (''price'', JNum 9),
            (''id'', JStr ''1b4e28ba-2fa1-41d2-883f-0016d3cca427'')])]) \<and>
   createProduct shop_env [(''id'', JStr []), (''name'', JStr ''Shoe'')] []
     = (Inr (JObj [(''id'', JStr ''1b4e28ba-2fa1-41d2-883f-0016d3cca427''),
                   (''name'', JStr ''Shoe'')]),
        [(''1b4e28ba-2fa1-41d2-883f-0016d3cca427'',
           [(''id'', JStr ''1b4e28ba-2fa1-41d2-883f-0016d3cca427''),
            (''name'', JStr ''Shoe'')])]) \<and>
   createProduct shop_env [(''id'', JStr ''1''), (''name'', JStr ''B'')] shop_table
     = (Inr (JObj [(''id'', JStr ''1''), (''name'', JStr ''B'')]),
        [(''1'', [(''id'', JStr ''1''), (''name'', JStr ''B'')])]) \<and>
   v4_octets (sample_octets(0 := 28)) \<noteq> v4_octets sample_octets \<and>
   uuid_v4 (sample_octets(0 := 28)) \<noteq> ''1b4e28ba-2fa1-41d2-883f-0016d3cca427'' \<and>
   map_of (snd (createProduct (dynamo_env ''ProductTable'' (sample_octets(0 := 28)))
                  [(''name'', JStr ''Hat'')]
                  (snd (createProduct shop_env [(''name'', JStr ''Shoe''), (''price'', JNum 9)]
                          shop_table))))
      ''1b4e28ba-2fa1-41d2-883f-0016d3cca427''
     = Some [(''name'', JStr ''Shoe''), (''price'', JNum 9),
             (''id'', JStr ''1b4e28ba-2fa1-41d2-883f-0016d3cca427'')]"
proof -
  let ?shoe = "[(''name'', JStr ''Shoe''), (''price'', JNum 9)]"
  let ?blank = "[(''id'', JStr []), (''name'', JStr ''Shoe'')]"
  let ?b = "[(''id'', JStr ''1''), (''name'', JStr ''B'')]"
  let ?hat = "[(''name'', JStr ''Hat'')]"
  let ?u = "uuid_v4 sample_octets"
  have differ: "v4_octets (sample_octets(0 := 28)) \<noteq> v4_octets sample_octets"
    by (simp add: v4_octets_def sample_octets_def upt_rec)
  have absent: "obj_get ?shoe ''id'' \<in> {JUndefined, JNull, JStr []}"
    "obj_get ?blank ''id'' \<in> {JUndefined, JNull, JStr []}"
    "obj_get ?hat ''id'' \<in> {JUndefined, JNull, JStr []}"
    by (simp_all add: obj_get_def)
  have given: "obj_get ?b ''id'' = JStr ''1'' \<and> ''1'' \<noteq> []"
    by (simp add: obj_get_def)
  have first: "createProduct (dynamo_env ''ProductTable'' sample_octets) ?shoe shop_table
      = (Inr (JObj (obj_set ?shoe ''id'' (JStr ?u))),
         AList.update ?u (obj_set ?shoe ''id'' (JStr ?u)) shop_table)"
    using createProduct_id_and_put [of ?shoe "''ProductTable''" sample_octets shop_table]
      absent(1) by blast
  have second: "uuid_v4 (sample_octets(0 := 28)) \<noteq> ?u \<and>
      map_of (snd (createProduct (dynamo_env ''ProductTable'' (sample_octets(0 := 28))) ?hat
                     (snd (createProduct (dynamo_env ''ProductTable'' sample_octets) ?shoe
                             shop_table)))) ?u
        = Some (obj_set ?shoe ''id'' (JStr ?u))"
    using createProduct_id_and_put [of ?shoe "''ProductTable''" sample_octets shop_table]
      absent(1,3) differ by blast
  have blank: "createProduct (dynamo_env ''ProductTable'' sample_octets) ?blank []
      = (Inr (JObj (obj_set ?blank ''id'' (JStr ?u))),
         AList.update ?u (obj_set ?blank ''id'' (JStr ?u)) [])"
    using createProduct_id_and_put [of ?blank "''ProductTable''" sample_octets "[]"]
      absent(2) by blast
  have kept: "createProduct (dynamo_env ''ProductTable'' sample_octets) ?b shop_table
      = (Inr (JObj ?b), AList.update ''1'' ?b shop_table)"
    using createProduct_id_and_put [of ?b "''ProductTable''" sample_octets shop_table]
      given by blast
  have "createProduct shop_env ?shoe shop_table
     = (Inr (JObj [(''name'', JStr ''Shoe''), (''price'', JNum 9),
                   (''id'', JStr ''1b4e28ba-2fa1-41d2-883f-0016d3cca427'')]),
        shop_table @ [(''1b4e28ba-2fa1-41d2-883f-0016d3cca427'',
           [(''name'', JStr ''Shoe''), (''price'', JNum 9),
            (''id'', JStr ''1b4e28ba-2fa1-41d2-883f-0016d3cca427'')])])"
    using first by (simp add: shop_env_def shop_table_def obj_set_def uuid_v4_sample)
  moreover have "createProduct shop_env ?blank []
     = (Inr (JObj [(''id'', JStr ''1b4e28ba-2fa1-41d2-883f-0016d3cca427''),
                   (''name'', JStr ''Shoe'')]),
        [(''1b4e28ba-2fa1-41d2-883f-0016d3cca427'',
           [(''id'', JStr ''1b4e28ba-2fa1-41d2-883f-0016d3cca427''),
            (''name'', JStr ''Shoe'')])])"
    using blank by (simp add: shop_env_def obj_set_def uuid_v4_sample)
  moreover have "createProduct shop_env ?b shop_table
     = (Inr (JObj [(''id'', JStr ''1''), (''name'', JStr ''B'')]),
        [(''1'', [(''id'', JStr ''1''), (''name'', JStr ''B'')])])"
    using kept by (simp add: shop_env_def shop_table_def)
  moreover have "uuid_v4 (sample_octets(0 := 28)) \<noteq> ''1b4e28ba-2fa1-41d2-883f-0016d3cca427''"
    using second by (simp add: uuid_v4_sample)
  moreover have "map_of (snd (createProduct (dynamo_env ''ProductTable'' (sample_octets(0 := 28)))
                  [(''name'', JStr ''Hat'')]
                  (snd (createProduct shop_env ?shoe shop_table))))
      ''1b4e28ba-2fa1-41d2-883f-0016d3cca427''
     = Some [(''name'', JStr ''Shoe''), (''price'', JNum 9),
             (''id'', JStr ''1b4e28ba-2fa1-41d2-883f-0016d3cca427'')]"
    using second by (simp add: shop_env_def obj_set_def uuid_v4_sample)
  ultimately show ?thesis
    using absent(1) differ by blast
qed

text \<open>
  C4. On the table, for a stored record and an input that carries the record's id and
  whose other attribute names are made of letters, digits and underscores (those of
  \<open>UpdateProductInput\<close> are): after \<open>updateProduct\<close> each attribute of the input other
  than \<open>id\<close> has the input's value in the record, every other attribute of the record,
  \<open>id\<close> included, is as it was, and no other record has changed.
\<close>

theorem updateProduct_partial_update:
  assumes "map_of tbl pid = Some item"
    and "obj_get pr ''id'' = JStr pid"
    and "\<forall>a\<in>set (Object_keys pr). a \<noteq> ''id'' \<longrightarrow> valid_name a"
  shows "\<exists>item'.
           map_of (snd (updateProduct (dynamo_env tn u) pr tbl)) pid = Some item' \<and>
           (\<forall>a. map_of item' a =
                  (if a \<in> set (Object_keys pr) \<and> a \<noteq> ''id'' then Some (obj_get pr a)
                   else map_of item a)) \<and>
           map_of item' ''id'' = map_of item ''id'' \<and>
           (\<forall>k. k \<noteq> pid \<longrightarrow>
                  map_of (snd (updateProduct (dynamo_env tn u) pr tbl)) k = map_of tbl k)"
proof -
  have valid: "\<forall>a\<in>set (patch_keys pr). valid_name a"
    using assms(3) by (simp add: patch_keys_def)
  have mem: "a \<in> set (patch_keys pr) \<longleftrightarrow> a \<in> set (Object_keys pr) \<and> a \<noteq> ''id''" for a
    by (auto simp: patch_keys_def)
  show ?thesis
  proof (cases "patch_keys pr = []")
    case True
    then have "snd (updateProduct (dynamo_env tn u) pr tbl) = tbl"
      by (simp add: updateProduct_on_table [OF assms(2) valid])
    moreover have "\<not> (a \<in> set (Object_keys pr) \<and> a \<noteq> ''id'')" for a
      using True mem [of a] by simp
    ultimately show ?thesis
      using assms(1) by auto
  next
    case False
    let ?item' = "apply_actions (map (\<lambda>a. (a, obj_get pr a)) (patch_keys pr)) item"
    have "snd (updateProduct (dynamo_env tn u) pr tbl) = AList.update pid ?item' tbl"
      using False assms(1) by (simp add: updateProduct_on_table [OF assms(2) valid])
    moreover have "map_of ?item' a =
        (if a \<in> set (Object_keys pr) \<and> a \<noteq> ''id'' then Some (obj_get pr a) else map_of item a)"
      for a
      by (simp add: map_of_apply_actions mem)
    ultimately show ?thesis
      by (simp add: update_conv')
  qed
qed

theorem updateProduct_partial_update_witness:
  "map_of shop_table ''1''
     = Some [(''id'', JStr ''1''), (''name'', JStr ''A''), (''price'', JNum 10),
             (''category'', JStr ''x'')] \<and>
   obj_get [(''id'', JStr ''1''), (''price'', JNum 20)] ''id'' = JStr ''1'' \<and>
   Object_keys [(''id'', JStr ''1''), (''price'', JNum 20)] = [''id'', ''price''] \<and>
   valid_name ''price'' \<and>
   (\<exists>item'.
      map_of (snd (updateProduct shop_env [(''id'', JStr ''1''), (''price'', JNum 20)]
                     shop_table)) ''1'' = Some item' \<and>
      map_of item' ''id'' = Some (JStr ''1'') \<and>
      map_of item' ''name'' = Some (JStr ''A'') \<and>
      map_of item' ''price'' = Some (JNum 20) \<and>
      map_of item' ''category'' = Some (JStr ''x'') \<and>
      map_of item' ''sku'' = None)"
proof -
  let ?item = "[(''id'', JStr ''1''), (''name'', JStr ''A''), (''price'', JNum 10),
                (''category'', JStr ''x'')]"
  let ?pr = "[(''id'', JStr ''1''), (''price'', JNum 20)]"
  have h1: "map_of shop_table ''1'' = Some ?item"
    by (simp add: shop_table_def)
  have h2: "obj_get ?pr ''id'' = JStr ''1''"
    by (simp add: obj_get_def)
  have h3: "\<forall>a\<in>set (Object_keys ?pr). a \<noteq> ''id'' \<longrightarrow> valid_name a"
    by (simp add: Object_keys_def valid_name_schema)
  from updateProduct_partial_update [OF h1 h2 h3, of "''ProductTable''"
      sample_octets]
  obtain item' where
    stored: "map_of (snd (updateProduct shop_env ?pr shop_table)) ''1'' = Some item'"
    and attrs: "\<forall>a. map_of item' a =
        (if a \<in> set (Object_keys ?pr) \<and> a \<noteq> ''id'' then Some (obj_get ?pr a)
         else map_of ?item a)"
    unfolding shop_env_def by blast
  have "map_of item' ''id'' = Some (JStr ''1'')" "map_of item' ''name'' = Some (JStr ''A'')"
    "map_of item' ''price'' = Some (JNum 20)" "map_of item' ''category'' = Some (JStr ''x'')"
    "map_of item' ''sku'' = None"
    by (simp_all add: attrs Object_keys_def obj_get_def)
  moreover have "Object_keys ?pr = [''id'', ''price'']"
    by (simp add: Object_keys_def)
  ultimately show ?thesis
    using stored h1 h2 valid_name_schema(3) by blast
qed

text \<open>
  C6. On the table, \<open>deleteProduct\<close> returns the id it was given and leaves the table
  without a record under that id and with every other record as it was; when there was no
  record under the id the table is as before, and the call returns the id all the same.
\<close>

theorem deleteProduct_removes_and_returns_id:
  "deleteProduct (dynamo_env tn u) pid tbl = (Inr (JStr pid), AList.delete pid tbl) \<and>
   map_of (AList.delete pid tbl) pid = None \<and>
   (\<forall>k. k \<noteq> pid \<longrightarrow> map_of (AList.delete pid tbl) k = map_of tbl k) \<and>
   (map_of tbl pid = None \<longrightarrow> AList.delete pid tbl = tbl)"
proof -
  have "deleteProduct (dynamo_env tn u) pid tbl = (Inr (JStr pid), AList.delete pid tbl)"
    by (simp add: deleteProduct_def dynamo_env_def dynamo_client_def table_error_def
        table_delete_def key_of_def)
  moreover have "map_of tbl pid = None \<Longrightarrow> AList.delete pid tbl = tbl"
    by (simp add: map_of_eq_None_iff)
  ultimately show ?thesis
    by (simp add: delete_conv')
qed

theorem deleteProduct_removes_and_returns_id_witness:
  "map_of shop_table ''missing-id'' = None \<and>
   deleteProduct shop_env ''missing-id'' shop_table = (Inr (JStr ''missing-id''), shop_table) \<and>
   deleteProduct shop_env ''1'' shop_table = (Inr (JStr ''1''), [])"
  using deleteProduct_removes_and_returns_id [of "''ProductTable''"
      sample_octets "''missing-id''" shop_table]
    deleteProduct_removes_and_returns_id [of "''ProductTable''"
      sample_octets "''1''" shop_table]
  by (simp add: shop_env_def shop_table_def)

lemma loop_only_id:
  "\<forall>a\<in>set attrs. a = ''id'' \<Longrightarrow> updateProduct_loop pr attrs st = st"
  by (induction attrs arbitrary: st) (auto simp: split_paired_all)

lemma updateProduct_params_only_id:
  "\<forall>a\<in>set (Object_keys pr). a = ''id'' \<Longrightarrow>
   updateProduct_params e pr
     = \<lparr>TableName = PRODUCT_TABLE e, Key = [(''id'', obj_get pr ''id'')],
        ExpressionAttributeValues = [], ExpressionAttributeNames = [],
        UpdateExpression = [], ReturnValues = ''UPDATED_NEW''\<rparr>"
  by (simp add: updateProduct_params_def loop_only_id)

lemma table_update_empty_expression:
  "UpdateExpression p = [] \<Longrightarrow> table_update p tbl = (Inl ValidationException, tbl)"
  by (simp add: table_update_def parse_update_expression_def split: option.splits)

text \<open>
  C9. For an input with no attribute besides \<open>id\<close> the loop adds nothing: the request
  that \<open>updateProduct\<close> sends has the empty string as its update expression and empty
  maps of names and values, whatever the client is. The table rejects it, so the record
  stays as it was and the handler's catch returns \<open>null\<close>, not the input.
\<close>

theorem updateProduct_id_only:
  assumes "\<forall>a\<in>set (Object_keys pr). a = ''id''"
  shows "updateProduct_params e pr
           = \<lparr>TableName = PRODUCT_TABLE e, Key = [(''id'', obj_get pr ''id'')],
              ExpressionAttributeValues = [], ExpressionAttributeNames = [],
              UpdateExpression = [], ReturnValues = ''UPDATED_NEW''\<rparr> \<and>
         updateProduct (dynamo_env tn u) pr tbl = (Inr JNull, tbl)"
proof -
  have "docClient (dynamo_env tn u) (Update (updateProduct_params (dynamo_env tn u) pr)) tbl
          = (Inl ValidationException, tbl)"
    by (simp add: updateProduct_params_only_id [OF assms] dynamo_env_def dynamo_client_def
        table_error_def table_update_empty_expression)
  then show ?thesis
    by (simp add: updateProduct_params_only_id [OF assms] updateProduct_def)
qed

theorem updateProduct_id_only_witness:
  "Object_keys [(''id'', JStr ''1'')] = [''id''] \<and>
   UpdateExpression (updateProduct_params shop_env [(''id'', JStr ''1'')]) = [] \<and>
   updateProduct shop_env [(''id'', JStr ''1'')] shop_table = (Inr JNull, shop_table) \<and>
   fst (updateProduct shop_env [(''id'', JStr ''1'')] shop_table)
     \<noteq> Inr (JObj [(''id'', JStr ''1'')])"
  using updateProduct_id_only [of "[(''id'', JStr ''1'')]" shop_env "''ProductTable''"
      sample_octets shop_table]
  by (simp add: Object_keys_def shop_env_def)

end
